theory Spec2Isabelle
  imports Main "HOL-Library.Word"
begin

section \<open>Data model of file.go\<close>

text \<open>
  Go's \<open>int\<close> is a machine integer; on the usual 64-bit targets it has 64 bits and its
  arithmetic wraps around. Every \<open>int\<close> field and accumulator of file.go is modelled as a
  64-bit word. The length of a slice is at most \<open>2^63 - 1\<close> in Go, so comparisons of
  a length with zero are made on the list length itself, and a length that enters the
  arithmetic is converted by \<open>len\<close>.
\<close>

type_synonym go_int = "64 word"

definition len :: "'a list \<Rightarrow> go_int" where
  "len xs = word_of_nat (length xs)"

text \<open>
  Go's \<open>error\<close> interface. \<open>ErrNilFile\<close> is the package's sentinel, \<open>FileError\<close> is
  the struct declared in file.go, \<open>errorString\<close> is what \<open>errors.New\<close> and
  \<open>fmt.Errorf\<close> build (identified by their text), and \<open>External\<close> stands for any error
  value built by the validators, which live outside file.go.
\<close>

datatype 'e error =
    ErrNilFile
  | FileError (FieldName: string) (Value: string) (Msg: string)
  | errorString string
  | External 'e

text \<open>
  The record structs other than \<open>File\<close> are declared in other files of the package.
  Each one is modelled with the fields that file.go reads, and one further component
  (\<open>..._rest\<close>) that holds all its other fields. The type variable \<open>'r\<close> is the
  representation of the structs and fields that file.go never looks into: the file header,
  the addenda, the image-view records, the credit items and every \<open>..._rest\<close>. Elements of
  the slices are taken to be present (no nil element).
\<close>

record 'r CheckDetail =
  ItemAmount :: go_int
  CheckDetailAddendumA :: "'r list"
  CheckDetailAddendumB :: "'r list"
  CheckDetailAddendumC :: "'r list"
  ImageViewDetail :: "'r list"
  ImageViewData :: "'r list"
  ImageViewAnalysis :: "'r list"
  CheckDetail_rest :: 'r

record 'r ReturnDetail =
  ItemAmount :: go_int
  ReturnDetailAddendumA :: "'r list"
  ReturnDetailAddendumB :: "'r list"
  ReturnDetailAddendumC :: "'r list"
  ReturnDetailAddendumD :: "'r list"
  ImageViewDetail :: "'r list"
  ImageViewData :: "'r list"
  ImageViewAnalysis :: "'r list"
  ReturnDetail_rest :: 'r

record 'r Bundle =
  Checks :: "'r CheckDetail list"
  Returns :: "'r ReturnDetail list"
  Bundle_rest :: 'r

record 'r CashLetterHeader =
  CashLetterID :: string
  CashLetterHeader_rest :: 'r

record 'r CashLetter =
  CashLetterHeader :: "'r CashLetterHeader"
  Bundles :: "'r Bundle list"
  CreditItems :: "'r list"
  CashLetter_rest :: 'r

record 'r FileControl =
  CashLetterCount :: go_int
  TotalRecordCount :: go_int
  TotalItemCount :: go_int
  FileTotalAmount :: go_int
  ImmediateOriginContactName :: string
  ImmediateOriginContactPhoneNumber :: string
  CreditTotalIndicator :: go_int
  FileControl_rest :: 'r

text \<open>The struct \<open>File\<close> of file.go, field by field.\<close>

record 'r File =
  ID :: string
  Header :: 'r
  CashLetters :: "'r CashLetter list"
  Bundles :: "'r Bundle list"
  Control :: "'r FileControl"

text \<open>
  What file.go calls and does not define: the constructors of the header and the control
  record, the validators of the header, of a cash letter and of a bundle, the record type
  stamps, and the three runs of the JSON decoder. They are parameters of the model. A
  validator is a function of the record it is called on and returns the error, if any.
  A decode pass is a function of the payload (and of the value its target is seeded with)
  and returns the decoded target, or the text of the decoder's error.
\<close>

record ('r, 'e) deps =
  NewFileHeader :: 'r
  NewFileControl :: "'r FileControl"
  FileHeader_Validate :: "'r \<Rightarrow> 'e error option"
  CashLetter_Validate :: "'r CashLetter \<Rightarrow> 'e error option"
  Bundle_Validate :: "'r Bundle \<Rightarrow> 'e error option"
  FileHeader_setRecordType :: "'r \<Rightarrow> 'r"
  CashLetter_setRecordType :: "'r CashLetter \<Rightarrow> 'r CashLetter"
  Bundle_setRecordType :: "'r Bundle \<Rightarrow> 'r Bundle"
  FileControl_setRecordType :: "'r FileControl \<Rightarrow> 'r FileControl"
  Decode_File :: "string \<Rightarrow> string + 'r File"
  Decode_fileHeader :: "string \<Rightarrow> 'r \<Rightarrow> string + 'r"
  Decode_fileControl :: "string \<Rightarrow> 'r FileControl \<Rightarrow> string + 'r FileControl"

text \<open>
  Modelled from the spec: \<open>GetCreditItems\<close> is declared outside file.go; the spec gives a
  CashLetter an ordered sequence of credit items, which the accessor returns.
\<close>

definition GetCreditItems :: "'r CashLetter \<Rightarrow> 'r list" where
  "GetCreditItems cl = CreditItems cl"

section \<open>Library functions\<close>

text \<open>\<open>strconv.Itoa\<close>: the decimal text of an \<open>int\<close>.\<close>

function decimal :: "nat \<Rightarrow> string" where
  "decimal n =
     (if n < 10 then [''0123456789'' ! n]
      else decimal (n div 10) @ [''0123456789'' ! (n mod 10)])"
  by pat_completeness auto
termination
  by (relation "measure id") auto

declare decimal.simps [simp del]

definition Itoa :: "go_int \<Rightarrow> string" where
  "Itoa i = (if sint i < 0 then ''-'' @ decimal (nat (- sint i)) else decimal (nat (sint i)))"

section \<open>NewFile\<close>

definition NewFile :: "('r, 'e) deps \<Rightarrow> 'r File" where
  "NewFile d =
     \<lparr>ID = [], Header = NewFileHeader d, CashLetters = [], Bundles = [],
      Control = NewFileControl d\<rparr>"

section \<open>Create\<close>

text \<open>The accumulators that the loops of \<open>Create\<close> update.\<close>

record totals =
  fileTotalItemCount :: go_int
  fileTotalAmount :: go_int
  cashLetterRecordCount :: go_int
  bundleRecordCount :: go_int
  creditIndicator :: go_int

text \<open>The loop over \<open>b.Checks\<close> (lines 219 to 225).\<close>

fun checks_loop :: "'r CheckDetail list \<Rightarrow> totals \<Rightarrow> totals" where
  "checks_loop [] t = t"
| "checks_loop (cd # cds) t =
     (let t = t\<lparr>fileTotalItemCount := fileTotalItemCount t + 1\<rparr>;
          t = t\<lparr>fileTotalItemCount := fileTotalItemCount t + len (CheckDetailAddendumA cd)
                  + len (CheckDetailAddendumB cd) + len (CheckDetailAddendumC cd)\<rparr>;
          t = t\<lparr>fileTotalItemCount := fileTotalItemCount t
                  + len (CheckDetail.ImageViewDetail cd) + len (CheckDetail.ImageViewData cd)
                  + len (CheckDetail.ImageViewAnalysis cd)\<rparr>;
          t = t\<lparr>fileTotalAmount := fileTotalAmount t + CheckDetail.ItemAmount cd\<rparr>
      in checks_loop cds t)"

text \<open>The loop over \<open>b.Returns\<close> (lines 227 to 233).\<close>

fun returns_loop :: "'r ReturnDetail list \<Rightarrow> totals \<Rightarrow> totals" where
  "returns_loop [] t = t"
| "returns_loop (rd # rds) t =
     (let t = t\<lparr>fileTotalItemCount := fileTotalItemCount t + 1\<rparr>;
          t = t\<lparr>fileTotalItemCount := fileTotalItemCount t + len (ReturnDetailAddendumA rd)
                  + len (ReturnDetailAddendumB rd) + len (ReturnDetailAddendumC rd)
                  + len (ReturnDetailAddendumD rd)\<rparr>;
          t = t\<lparr>fileTotalItemCount := fileTotalItemCount t
                  + len (ReturnDetail.ImageViewDetail rd) + len (ReturnDetail.ImageViewData rd)
                  + len (ReturnDetail.ImageViewAnalysis rd)\<rparr>;
          t = t\<lparr>fileTotalAmount := fileTotalAmount t + ReturnDetail.ItemAmount rd\<rparr>
      in returns_loop rds t)"

text \<open>The loop over \<open>cl.Bundles\<close> (lines 210 to 234); a failed validation returns at once.\<close>

fun bundles_loop ::
  "('r, 'e) deps \<Rightarrow> 'r Bundle list \<Rightarrow> totals \<Rightarrow> 'e error + totals" where
  "bundles_loop d [] t = Inr t"
| "bundles_loop d (b # bs) t =
     (case Bundle_Validate d b of
        Some err \<Rightarrow> Inl err
      | None \<Rightarrow>
          (let t = t\<lparr>bundleRecordCount := bundleRecordCount t + 2\<rparr>;
               t = checks_loop (Checks b) t;
               t = returns_loop (Returns b) t
           in bundles_loop d bs t))"

text \<open>The loop over \<open>f.CashLetters\<close> (lines 195 to 235).\<close>

fun cashLetters_loop ::
  "('r, 'e) deps \<Rightarrow> 'r CashLetter list \<Rightarrow> totals \<Rightarrow> 'e error + totals" where
  "cashLetters_loop d [] t = Inr t"
| "cashLetters_loop d (cl # cls) t =
     (case CashLetter_Validate d cl of
        Some err \<Rightarrow> Inl err
      | None \<Rightarrow>
          (let t = t\<lparr>cashLetterRecordCount := cashLetterRecordCount t + 2\<rparr>;
               t = t\<lparr>fileTotalItemCount := fileTotalItemCount t + len (GetCreditItems cl)\<rparr>;
               t = (if length (GetCreditItems cl) > 0
                    then t\<lparr>fileTotalItemCount := fileTotalItemCount t + len (GetCreditItems cl),
                           creditIndicator := 1\<rparr>
                    else t)
           in case bundles_loop d (CashLetter.Bundles cl) t of
                Inl err \<Rightarrow> Inl err
              | Inr t \<Rightarrow> cashLetters_loop d cls t))"

text \<open>
  \<open>Create\<close> has a pointer receiver and returns an error. The model takes the receiver
  (\<open>None\<close> is the nil pointer) and returns the error together with the receiver after the
  call.
\<close>

definition Create ::
  "('r, 'e) deps \<Rightarrow> 'r File option \<Rightarrow> 'e error option \<times> 'r File option" where
  "Create d fo =
     (case fo of
        None \<Rightarrow> (Some ErrNilFile, None)
      | Some f \<Rightarrow>
          (case FileHeader_Validate d (Header f) of
             Some err \<Rightarrow> (Some err, Some f)
           | None \<Rightarrow>
               if length (CashLetters f) \<le> 0
               then (Some (FileError ''CashLetters'' (Itoa (len (CashLetters f)))
                             ''must have []*CashLetters to be built''), Some f)
               else
                 (let fileCashLetterCount = len (CashLetters f);
                      fileTotalRecordCount = 2;
                      t = \<lparr>fileTotalItemCount = 0, fileTotalAmount = 0,
                           cashLetterRecordCount = 0, bundleRecordCount = 0,
                           creditIndicator = 0\<rparr>
                  in case cashLetters_loop d (CashLetters f) t of
                       Inl err \<Rightarrow> (Some err, Some f)
                     | Inr t \<Rightarrow>
                         (let fileTotalRecordCount =
                                fileTotalRecordCount + cashLetterRecordCount t
                                  + bundleRecordCount t + fileTotalItemCount t;
                              fc = NewFileControl d;
                              fc = fc\<lparr>CashLetterCount := fileCashLetterCount\<rparr>;
                              fc = fc\<lparr>TotalRecordCount := fileTotalRecordCount\<rparr>;
                              fc = fc\<lparr>TotalItemCount := fileTotalItemCount t\<rparr>;
                              fc = fc\<lparr>FileTotalAmount := fileTotalAmount t\<rparr>;
                              fc = fc\<lparr>ImmediateOriginContactName := []\<rparr>;
                              fc = fc\<lparr>ImmediateOriginContactPhoneNumber := []\<rparr>;
                              fc = fc\<lparr>CreditTotalIndicator := creditIndicator t\<rparr>
                          in (None, Some (f\<lparr>Control := fc\<rparr>))))))"

section \<open>Validate\<close>

definition msgFileCashLetterID :: "string \<Rightarrow> string" where
  "msgFileCashLetterID s = s @ '' is not unique''"

text \<open>The loop of \<open>CashLetterIDUnique\<close> (lines 281 to 288) with its rolling variable.\<close>

fun cashLetterID_loop :: "string \<Rightarrow> 'r CashLetter list \<Rightarrow> 'e error option" where
  "cashLetterID_loop cashLetterID [] = None"
| "cashLetterID_loop cashLetterID (cl # cls) =
     (if cashLetterID = CashLetterID (CashLetterHeader cl)
      then Some (FileError ''CashLetterID'' (CashLetterID (CashLetterHeader cl))
                   (msgFileCashLetterID cashLetterID))
      else cashLetterID_loop (CashLetterID (CashLetterHeader cl)) cls)"

definition CashLetterIDUnique :: "'r File option \<Rightarrow> 'e error option" where
  "CashLetterIDUnique fo =
     (case fo of
        None \<Rightarrow> Some ErrNilFile
      | Some f \<Rightarrow>
          if length (CashLetters f) = 0 then Some ErrNilFile
          else cashLetterID_loop [] (CashLetters f))"

definition Validate :: "'r File option \<Rightarrow> 'e error option" where
  "Validate fo =
     (case fo of
        None \<Rightarrow> Some ErrNilFile
      | Some f \<Rightarrow>
          (case CashLetterIDUnique (Some f) of
             Some err \<Rightarrow> Some err
           | None \<Rightarrow> None))"

section \<open>setRecordTypes and FileFromJSON\<close>

definition setRecordTypes :: "('r, 'e) deps \<Rightarrow> 'r File option \<Rightarrow> 'r File option" where
  "setRecordTypes d fo =
     (case fo of
        None \<Rightarrow> None
      | Some f \<Rightarrow>
          (let f = f\<lparr>Header := FileHeader_setRecordType d (Header f)\<rparr>;
               f = f\<lparr>CashLetters := map (CashLetter_setRecordType d) (CashLetters f)\<rparr>;
               f = f\<lparr>Bundles := map (Bundle_setRecordType d) (Bundles f)\<rparr>;
               f = f\<lparr>Control := FileControl_setRecordType d (Control f)\<rparr>
           in Some f))"

text \<open>
  \<open>FileFromJSON\<close> returns a pointer to a File (\<open>None\<close> is nil) and an error. The decoder
  of the first pass fills a zero File; of its result only \<open>ID\<close>, \<open>CashLetters\<close> and
  \<open>Bundles\<close> are read.
\<close>

definition FileFromJSON ::
  "('r, 'e) deps \<Rightarrow> string \<Rightarrow> 'r File option \<times> 'e error option" where
  "FileFromJSON d bs =
     (if length bs = 0 then (None, Some (errorString ''no JSON data provided''))
      else
        (let file = NewFile d in
         case Decode_File d bs of
           Inl err \<Rightarrow> (None, Some (errorString (''problem reading file: '' @ err)))
         | Inr f \<Rightarrow>
             (let file = file\<lparr>ID := ID f\<rparr>;
                  file = file\<lparr>CashLetters := CashLetters f\<rparr>;
                  file = file\<lparr>Bundles := Bundles f\<rparr>
              in case Decode_fileHeader d bs (Header file) of
                   Inl err \<Rightarrow> (None, Some (errorString (''problem reading FileHeader: '' @ err)))
                 | Inr header \<Rightarrow>
                     (let file = file\<lparr>Header := header\<rparr>
                      in case Decode_fileControl d bs (NewFileControl d) of
                           Inl err \<Rightarrow>
                             (None, Some (errorString (''problem reading FileControl: '' @ err)))
                         | Inr control \<Rightarrow>
                             (let file = file\<lparr>Control := control\<rparr>;
                                  fo = setRecordTypes d (Some file)
                              in case Create d fo of
                                   (Some err, fo) \<Rightarrow> (fo, Some err)
                                 | (None, fo) \<Rightarrow>
                                     (case Validate fo of
                                        Some err \<Rightarrow> (fo, Some err)
                                      | None \<Rightarrow> (fo, None)))))))"

section \<open>The decode passes as encoding/json performs them\<close>

text \<open>
  Each pass of \<open>FileFromJSON\<close> is a call of \<open>Decode\<close> of Go's encoding/json on a
  pointer to a struct. \<open>Decode\<close> reads the first JSON value of the payload. When that
  is an object, its members are taken in their order: a member whose name matches the tag
  of a field of the target is decoded into that field, a member that matches no field is
  skipped, and a field without a member keeps the value it had before the call. The value
  \<open>null\<close> in place of the object changes nothing.

  The outcome of decoding one member into a field: the new value of the field; a type
  mismatch, which is noted while decoding goes on (the first one noted is the error of
  the call); or an error that ends the call at once.
\<close>

datatype 'a decoded = Decoded 'a | Mismatch string 'a | Failed string

text \<open>
  What this needs and file.go does not fix: the members of the object of a payload (or the
  text of the error for a payload that is no such JSON text), the rule that matches the
  name of a member with a tag (the exact name, or the name without regard to case), the
  decoding of a value into each kind of field, whose structs are declared outside file.go,
  and the zero values of the header and the control record, which the target of the first
  pass starts with. The type variable \<open>'j\<close> is the representation of a JSON value.
\<close>

record ('r, 'j) encoding_json =
  JSON_members :: "string \<Rightarrow> string + (string \<times> 'j) list"
  Key_matches :: "string \<Rightarrow> string \<Rightarrow> bool"
  Decode_ID :: "'j \<Rightarrow> string \<Rightarrow> string decoded"
  Decode_Header :: "'j \<Rightarrow> 'r \<Rightarrow> 'r decoded"
  Decode_CashLetters :: "'j \<Rightarrow> 'r CashLetter list \<Rightarrow> 'r CashLetter list decoded"
  Decode_Bundles :: "'j \<Rightarrow> 'r Bundle list \<Rightarrow> 'r Bundle list decoded"
  Decode_Control :: "'j \<Rightarrow> 'r FileControl \<Rightarrow> 'r FileControl decoded"
  zero_FileHeader :: 'r
  zero_FileControl :: "'r FileControl"

text \<open>
  The members of an object, decoded one after the other into a target; \<open>field\<close> gives
  for the name of a member the field of the target that it is decoded into, if there is
  one, and \<open>saved\<close> is the first type mismatch noted so far.
\<close>

fun decode_object ::
  "(string \<Rightarrow> 'j \<Rightarrow> 't \<Rightarrow> 't decoded option) \<Rightarrow> (string \<times> 'j) list \<Rightarrow> string option \<Rightarrow> 't
     \<Rightarrow> string + 't" where
  "decode_object field [] saved t = (case saved of None \<Rightarrow> Inr t | Some err \<Rightarrow> Inl err)"
| "decode_object field ((k, v) # ms) saved t =
     (case field k v t of
        None \<Rightarrow> decode_object field ms saved t
      | Some (Decoded t') \<Rightarrow> decode_object field ms saved t'
      | Some (Mismatch err t') \<Rightarrow>
          decode_object field ms (case saved of None \<Rightarrow> Some err | Some e \<Rightarrow> Some e) t'
      | Some (Failed err) \<Rightarrow> Inl err)"

text \<open>The fields of the struct \<open>File\<close> with their tags (lines 93 to 101).\<close>

definition File_field ::
  "('r, 'j) encoding_json \<Rightarrow> string \<Rightarrow> 'j \<Rightarrow> 'r File \<Rightarrow> 'r File decoded option" where
  "File_field J k v f =
     (if Key_matches J k ''id''
      then Some (map_decoded (\<lambda>x. f\<lparr>ID := x\<rparr>) (Decode_ID J v (ID f)))
      else if Key_matches J k ''fileHeader''
      then Some (map_decoded (\<lambda>x. f\<lparr>Header := x\<rparr>) (Decode_Header J v (Header f)))
      else if Key_matches J k ''cashLetters''
      then Some (map_decoded (\<lambda>x. f\<lparr>CashLetters := x\<rparr>)
                   (Decode_CashLetters J v (CashLetters f)))
      else if Key_matches J k ''bundle''
      then Some (map_decoded (\<lambda>x. f\<lparr>Bundles := x\<rparr>) (Decode_Bundles J v (Bundles f)))
      else if Key_matches J k ''fileControl''
      then Some (map_decoded (\<lambda>x. f\<lparr>Control := x\<rparr>) (Decode_Control J v (Control f)))
      else None)"

text \<open>
  The structs \<open>fileHeader\<close> and \<open>fileControl\<close> (lines 112 to 118) have one field each;
  the target is modelled by the value of that field.
\<close>

definition fileHeader_field ::
  "('r, 'j) encoding_json \<Rightarrow> string \<Rightarrow> 'j \<Rightarrow> 'r \<Rightarrow> 'r decoded option" where
  "fileHeader_field J k v header =
     (if Key_matches J k ''fileHeader'' then Some (Decode_Header J v header) else None)"

definition fileControl_field ::
  "('r, 'j) encoding_json \<Rightarrow> string \<Rightarrow> 'j \<Rightarrow> 'r FileControl \<Rightarrow> 'r FileControl decoded option" where
  "fileControl_field J k v control =
     (if Key_matches J k ''fileControl'' then Some (Decode_Control J v control) else None)"

text \<open>
  The three passes (lines 134, 145 and 154): the first into a zero File, the other two
  into the value that the caller seeds the target with.
\<close>

definition json_Decode_File :: "('r, 'j) encoding_json \<Rightarrow> string \<Rightarrow> string + 'r File" where
  "json_Decode_File J bs =
     (case JSON_members J bs of
        Inl err \<Rightarrow> Inl err
      | Inr ms \<Rightarrow>
          decode_object (File_field J) ms None
            \<lparr>ID = [], Header = zero_FileHeader J, CashLetters = [], Bundles = [],
             Control = zero_FileControl J\<rparr>)"

definition json_Decode_fileHeader ::
  "('r, 'j) encoding_json \<Rightarrow> string \<Rightarrow> 'r \<Rightarrow> string + 'r" where
  "json_Decode_fileHeader J bs header =
     (case JSON_members J bs of
        Inl err \<Rightarrow> Inl err
      | Inr ms \<Rightarrow> decode_object (fileHeader_field J) ms None header)"

definition json_Decode_fileControl ::
  "('r, 'j) encoding_json \<Rightarrow> string \<Rightarrow> 'r FileControl \<Rightarrow> string + 'r FileControl" where
  "json_Decode_fileControl J bs control =
     (case JSON_members J bs of
        Inl err \<Rightarrow> Inl err
      | Inr ms \<Rightarrow> decode_object (fileControl_field J) ms None control)"

section \<open>Notions used to state the results\<close>

text \<open>A CheckDetail without addenda and without image-view records.\<close>

definition plain_check :: "'r CheckDetail \<Rightarrow> bool" where
  "plain_check cd \<longleftrightarrow>
     CheckDetailAddendumA cd = [] \<and> CheckDetailAddendumB cd = [] \<and> CheckDetailAddendumC cd = []
     \<and> CheckDetail.ImageViewDetail cd = [] \<and> CheckDetail.ImageViewData cd = []
     \<and> CheckDetail.ImageViewAnalysis cd = []"

text \<open>
  Every Bundle of every CashLetter of a File, and every CheckDetail and ReturnDetail
  inside them. The legacy sequence \<open>File.Bundles\<close> is not part of it.
\<close>

definition all_bundles :: "'r File \<Rightarrow> 'r Bundle list" where
  "all_bundles f = concat (map CashLetter.Bundles (CashLetters f))"

definition all_checks :: "'r File \<Rightarrow> 'r CheckDetail list" where
  "all_checks f = concat (map Checks (all_bundles f))"

definition all_returns :: "'r File \<Rightarrow> 'r ReturnDetail list" where
  "all_returns f = concat (map Returns (all_bundles f))"


section \<open>Example data\<close>

text \<open>
  Concrete records and a concrete decoder on which the results are evaluated. The opaque
  part of a record is a string that holds its record type code; the example validators
  reject a record whose code is missing.
\<close>

subsection \<open>A reader of JSON texts\<close>

text \<open>
  JSON values, and a reader for objects, arrays, strings, integers and the three literals.
  A number with a fraction or an exponent and a string with a Unicode escape are refused
  with an error. The first argument of the reader bounds the depth of its calls, as Go's
  decoder bounds the depth of nesting; \<open>parse_json\<close> sets it from the length of the text.
\<close>

datatype jvalue =
    JNull
  | JBool bool
  | JNum int
  | JStr string
  | JArr "jvalue list"
  | JObj "(string \<times> jvalue) list"

definition is_ws :: "char \<Rightarrow> bool" where
  "is_ws c \<longleftrightarrow> c = CHR '' '' \<or> c = CHR 0x09 \<or> c = CHR 0x0A \<or> c = CHR 0x0D"

fun skip_ws :: "string \<Rightarrow> string" where
  "skip_ws [] = []"
| "skip_ws (c # s) = (if is_ws c then skip_ws s else c # s)"

definition digit_of :: "char \<Rightarrow> nat option" where
  "digit_of c =
     map_of [(CHR ''0'', 0), (CHR ''1'', 1), (CHR ''2'', 2), (CHR ''3'', 3), (CHR ''4'', 4),
             (CHR ''5'', 5), (CHR ''6'', 6), (CHR ''7'', 7), (CHR ''8'', 8), (CHR ''9'', 9)] c"

fun parse_digits :: "nat \<Rightarrow> string \<Rightarrow> nat \<times> string" where
  "parse_digits a [] = (a, [])"
| "parse_digits a (c # s) =
     (case digit_of c of Some k \<Rightarrow> parse_digits (10 * a + k) s | None \<Rightarrow> (a, c # s))"

definition quote :: char where
  "quote = CHR 0x22"

definition backslash :: char where
  "backslash = CHR 0x5C"

text \<open>The text of a string after its opening quote, and what follows the closing quote.\<close>

fun parse_string :: "string \<Rightarrow> string + (string \<times> string)" where
  "parse_string [] = Inl ''unexpected EOF''"
| "parse_string [c] = (if c = quote then Inr ([], []) else Inl ''unexpected EOF'')"
| "parse_string (c # e # s) =
     (if c = quote then Inr ([], e # s)
      else if c = backslash then
        (case map_of [(quote, quote), (backslash, backslash), (CHR ''/'', CHR ''/''),
                      (CHR ''b'', CHR 0x08), (CHR ''f'', CHR 0x0C), (CHR ''n'', CHR 0x0A),
                      (CHR ''r'', CHR 0x0D), (CHR ''t'', CHR 0x09)] e of
           None \<Rightarrow> Inl ''invalid character in string escape code''
         | Some x \<Rightarrow>
             (case parse_string s of Inl err \<Rightarrow> Inl err | Inr (t, r) \<Rightarrow> Inr (x # t, r)))
      else (case parse_string (e # s) of Inl err \<Rightarrow> Inl err | Inr (t, r) \<Rightarrow> Inr (c # t, r)))"

definition parse_number :: "string \<Rightarrow> string + (jvalue \<times> string)" where
  "parse_number s =
     (let (neg, s1) = (case s of c # r \<Rightarrow> if c = CHR ''-'' then (True, r) else (False, s)
                               | [] \<Rightarrow> (False, s));
          (n, r) = parse_digits 0 s1
      in if s1 = [] then Inl ''unexpected EOF''
         else if r = s1 then Inl ''invalid character looking for beginning of value''
         else if hd s1 = CHR ''0'' \<and> r \<noteq> tl s1 then Inl ''invalid character after number''
         else if r \<noteq> [] \<and> hd r \<in> set ''.eE'' then Inl ''number is not an integer''
         else Inr (JNum (if neg then - int n else int n), r))"

fun parse_value :: "nat \<Rightarrow> string \<Rightarrow> string + (jvalue \<times> string)"
  and parse_elems :: "nat \<Rightarrow> string \<Rightarrow> string + (jvalue list \<times> string)"
  and parse_members :: "nat \<Rightarrow> string \<Rightarrow> string + ((string \<times> jvalue) list \<times> string)"
where
  "parse_value 0 s = Inl ''exceeded max depth''"
| "parse_value (Suc n) s =
     (case skip_ws s of
        [] \<Rightarrow> Inl ''unexpected EOF''
      | c # r \<Rightarrow>
          if c = CHR ''{'' then
            (case skip_ws r of
               [] \<Rightarrow> Inl ''unexpected EOF''
             | c' # r' \<Rightarrow>
                 if c' = CHR ''}'' then Inr (JObj [], r')
                 else (case parse_members n (c' # r') of
                         Inl err \<Rightarrow> Inl err
                       | Inr (ms, r'') \<Rightarrow> Inr (JObj ms, r'')))
          else if c = CHR ''['' then
            (case skip_ws r of
               [] \<Rightarrow> Inl ''unexpected EOF''
             | c' # r' \<Rightarrow>
                 if c' = CHR '']'' then Inr (JArr [], r')
                 else (case parse_elems n (c' # r') of
                         Inl err \<Rightarrow> Inl err
                       | Inr (vs, r'') \<Rightarrow> Inr (JArr vs, r'')))
          else if c = quote then
            (case parse_string r of Inl err \<Rightarrow> Inl err | Inr (t, r') \<Rightarrow> Inr (JStr t, r'))
          else if take 4 (c # r) = ''null'' then Inr (JNull, drop 4 (c # r))
          else if take 4 (c # r) = ''true'' then Inr (JBool True, drop 4 (c # r))
          else if take 5 (c # r) = ''false'' then Inr (JBool False, drop 5 (c # r))
          else parse_number (c # r))"
| "parse_elems 0 s = Inl ''exceeded max depth''"
| "parse_elems (Suc n) s =
     (case parse_value n s of
        Inl err \<Rightarrow> Inl err
      | Inr (v, r) \<Rightarrow>
          (case skip_ws r of
             [] \<Rightarrow> Inl ''unexpected EOF''
           | c # r' \<Rightarrow>
               if c = CHR '']'' then Inr ([v], r')
               else if c = CHR '','' then
                 (case parse_elems n r' of
                    Inl err \<Rightarrow> Inl err
                  | Inr (vs, r'') \<Rightarrow> Inr (v # vs, r''))
               else Inl ''invalid character after array element''))"
| "parse_members 0 s = Inl ''exceeded max depth''"
| "parse_members (Suc n) s =
     (case skip_ws s of
        [] \<Rightarrow> Inl ''unexpected EOF''
      | c # r \<Rightarrow>
          if c \<noteq> quote then Inl ''invalid character looking for beginning of object key string''
          else
            (case parse_string r of
               Inl err \<Rightarrow> Inl err
             | Inr (k, r1) \<Rightarrow>
                 (case skip_ws r1 of
                    [] \<Rightarrow> Inl ''unexpected EOF''
                  | c1 # r2 \<Rightarrow>
                      if c1 \<noteq> CHR '':'' then Inl ''invalid character after object key''
                      else
                        (case parse_value n r2 of
                           Inl err \<Rightarrow> Inl err
                         | Inr (v, r3) \<Rightarrow>
                             (case skip_ws r3 of
                                [] \<Rightarrow> Inl ''unexpected EOF''
                              | c2 # r4 \<Rightarrow>
                                  if c2 = CHR ''}'' then Inr ([(k, v)], r4)
                                  else if c2 = CHR '','' then
                                    (case parse_members n r4 of
                                       Inl err \<Rightarrow> Inl err
                                     | Inr (ms, r5) \<Rightarrow> Inr ((k, v) # ms, r5))
                                  else Inl ''invalid character after object key:value pair'')))))"

definition parse_json :: "string \<Rightarrow> string + jvalue" where
  "parse_json s =
     (case parse_value (Suc (length s + length s)) s of
        Inl err \<Rightarrow> Inl err
      | Inr (v, r) \<Rightarrow> Inr v)"

subsection \<open>Example records\<close>

definition demo_control :: "string FileControl" where
  "demo_control =
     \<lparr>CashLetterCount = 0, TotalRecordCount = 0, TotalItemCount = 0, FileTotalAmount = 0,
      ImmediateOriginContactName = [], ImmediateOriginContactPhoneNumber = [],
      CreditTotalIndicator = 0, FileControl_rest = ''99''\<rparr>"

definition demo_check :: "go_int \<Rightarrow> string CheckDetail" where
  "demo_check amount =
     \<lparr>CheckDetail.ItemAmount = amount, CheckDetailAddendumA = [], CheckDetailAddendumB = [],
      CheckDetailAddendumC = [], CheckDetail.ImageViewDetail = [],
      CheckDetail.ImageViewData = [], CheckDetail.ImageViewAnalysis = [],
      CheckDetail_rest = ''25''\<rparr>"

definition demo_return :: "go_int \<Rightarrow> string ReturnDetail" where
  "demo_return amount =
     \<lparr>ReturnDetail.ItemAmount = amount, ReturnDetailAddendumA = [], ReturnDetailAddendumB = [],
      ReturnDetailAddendumC = [], ReturnDetailAddendumD = [],
      ReturnDetail.ImageViewDetail = [], ReturnDetail.ImageViewData = [],
      ReturnDetail.ImageViewAnalysis = [], ReturnDetail_rest = ''31''\<rparr>"

definition demo_bundle ::
  "string \<Rightarrow> string CheckDetail list \<Rightarrow> string ReturnDetail list \<Rightarrow> string Bundle" where
  "demo_bundle tag cds rds = \<lparr>Checks = cds, Returns = rds, Bundle_rest = tag\<rparr>"

definition demo_cashLetter :: "string \<Rightarrow> string \<Rightarrow> string Bundle list \<Rightarrow> string CashLetter" where
  "demo_cashLetter tag i bs =
     \<lparr>CashLetterHeader = \<lparr>CashLetterID = i, CashLetterHeader_rest = tag\<rparr>,
      CashLetter.Bundles = bs, CreditItems = [], CashLetter_rest = tag\<rparr>"

definition demo_file :: "string CashLetter list \<Rightarrow> string File" where
  "demo_file cls =
     \<lparr>ID = ''f1'', Header = ''01'', CashLetters = cls, Bundles = [], Control = demo_control\<rparr>"

definition demo_file_ids :: "string list \<Rightarrow> string File" where
  "demo_file_ids ids = demo_file (map (\<lambda>i. demo_cashLetter ''10'' i []) ids)"

subsection \<open>An example decoder\<close>

text \<open>
  The members of a payload are those of the object that the reader finds. Names are
  matched without regard to the case of the letters A to Z. The tags of the records that
  are declared outside file.go are the names that the payloads below use.
\<close>

definition lower :: "char \<Rightarrow> char" where
  "lower c =
     (case map_of (zip ''ABCDEFGHIJKLMNOPQRSTUVWXYZ'' ''abcdefghijklmnopqrstuvwxyz'') c of
        Some l \<Rightarrow> l
      | None \<Rightarrow> c)"

definition key_fold :: "string \<Rightarrow> string \<Rightarrow> bool" where
  "key_fold k t \<longleftrightarrow> map lower k = map lower t"

definition demo_members :: "string \<Rightarrow> string + (string \<times> jvalue) list" where
  "demo_members bs =
     (case parse_json bs of
        Inl err \<Rightarrow> Inl err
      | Inr (JObj ms) \<Rightarrow> Inr ms
      | Inr JNull \<Rightarrow> Inr []
      | Inr _ \<Rightarrow> Inl ''json: cannot unmarshal into Go value of type struct'')"

definition demo_int :: "jvalue \<Rightarrow> go_int \<Rightarrow> go_int decoded" where
  "demo_int v seed =
     (case v of
        JNum n \<Rightarrow>
          if - (2 ^ 63) \<le> n \<and> n < 2 ^ 63 then Decoded (word_of_int n)
          else Mismatch ''json: cannot unmarshal number into Go value of type int'' seed
      | JNull \<Rightarrow> Decoded seed
      | _ \<Rightarrow> Mismatch ''json: cannot unmarshal into Go value of type int'' seed)"

definition demo_string :: "jvalue \<Rightarrow> string \<Rightarrow> string decoded" where
  "demo_string v seed =
     (case v of
        JStr s \<Rightarrow> Decoded s
      | JNull \<Rightarrow> Decoded seed
      | _ \<Rightarrow> Mismatch ''json: cannot unmarshal into Go value of type string'' seed)"

definition demo_object ::
  "(string \<Rightarrow> jvalue \<Rightarrow> 't \<Rightarrow> 't decoded option) \<Rightarrow> jvalue \<Rightarrow> 't \<Rightarrow> 't decoded" where
  "demo_object field v seed =
     (case v of
        JObj ms \<Rightarrow>
          (case decode_object field ms None seed of
             Inl err \<Rightarrow> Mismatch err seed
           | Inr t \<Rightarrow> Decoded t)
      | JNull \<Rightarrow> Decoded seed
      | _ \<Rightarrow> Mismatch ''json: cannot unmarshal into Go value of type struct'' seed)"

fun decoded_all :: "'t decoded list \<Rightarrow> 't list option" where
  "decoded_all [] = Some []"
| "decoded_all (Decoded x # rs) = map_option ((#) x) (decoded_all rs)"
| "decoded_all (_ # rs) = None"

definition demo_list ::
  "(jvalue \<Rightarrow> 't \<Rightarrow> 't decoded) \<Rightarrow> 't \<Rightarrow> jvalue \<Rightarrow> 't list \<Rightarrow> 't list decoded" where
  "demo_list elem zero v seed =
     (case v of
        JArr vs \<Rightarrow>
          (case decoded_all (map (\<lambda>x. elem x zero) vs) of
             Some xs \<Rightarrow> Decoded xs
           | None \<Rightarrow> Mismatch ''json: cannot unmarshal array element'' seed)
      | JNull \<Rightarrow> Decoded []
      | _ \<Rightarrow> Mismatch ''json: cannot unmarshal into Go value of type slice'' seed)"

definition demo_check_field ::
  "string \<Rightarrow> jvalue \<Rightarrow> string CheckDetail \<Rightarrow> string CheckDetail decoded option" where
  "demo_check_field k v cd =
     (if key_fold k ''itemAmount''
      then Some (map_decoded (\<lambda>x. cd\<lparr>CheckDetail.ItemAmount := x\<rparr>)
                   (demo_int v (CheckDetail.ItemAmount cd)))
      else None)"

definition demo_return_field ::
  "string \<Rightarrow> jvalue \<Rightarrow> string ReturnDetail \<Rightarrow> string ReturnDetail decoded option" where
  "demo_return_field k v rd =
     (if key_fold k ''itemAmount''
      then Some (map_decoded (\<lambda>x. rd\<lparr>ReturnDetail.ItemAmount := x\<rparr>)
                   (demo_int v (ReturnDetail.ItemAmount rd)))
      else None)"

definition demo_bundle_field ::
  "string \<Rightarrow> jvalue \<Rightarrow> string Bundle \<Rightarrow> string Bundle decoded option" where
  "demo_bundle_field k v b =
     (if key_fold k ''checks''
      then Some (map_decoded (\<lambda>x. b\<lparr>Checks := x\<rparr>)
                   (demo_list (demo_object demo_check_field)
                      ((demo_check 0)\<lparr>CheckDetail_rest := []\<rparr>) v (Checks b)))
      else if key_fold k ''returns''
      then Some (map_decoded (\<lambda>x. b\<lparr>Returns := x\<rparr>)
                   (demo_list (demo_object demo_return_field)
                      ((demo_return 0)\<lparr>ReturnDetail_rest := []\<rparr>) v (Returns b)))
      else None)"

definition demo_cashLetterHeader_field ::
  "string \<Rightarrow> jvalue \<Rightarrow> string CashLetterHeader \<Rightarrow> string CashLetterHeader decoded option" where
  "demo_cashLetterHeader_field k v h =
     (if key_fold k ''cashLetterID''
      then Some (map_decoded (\<lambda>x. h\<lparr>CashLetterID := x\<rparr>) (demo_string v (CashLetterID h)))
      else None)"

definition demo_cashLetter_field ::
  "string \<Rightarrow> jvalue \<Rightarrow> string CashLetter \<Rightarrow> string CashLetter decoded option" where
  "demo_cashLetter_field k v cl =
     (if key_fold k ''cashLetterHeader''
      then Some (map_decoded (\<lambda>x. cl\<lparr>CashLetterHeader := x\<rparr>)
                   (demo_object demo_cashLetterHeader_field v (CashLetterHeader cl)))
      else if key_fold k ''bundles''
      then Some (map_decoded (\<lambda>x. cl\<lparr>CashLetter.Bundles := x\<rparr>)
                   (demo_list (demo_object demo_bundle_field) (demo_bundle [] [] []) v
                      (CashLetter.Bundles cl)))
      else None)"

definition demo_control_field ::
  "string \<Rightarrow> jvalue \<Rightarrow> string FileControl \<Rightarrow> string FileControl decoded option" where
  "demo_control_field k v c =
     (if key_fold k ''cashLetterCount''
      then Some (map_decoded (\<lambda>x. c\<lparr>CashLetterCount := x\<rparr>) (demo_int v (CashLetterCount c)))
      else if key_fold k ''totalRecordCount''
      then Some (map_decoded (\<lambda>x. c\<lparr>TotalRecordCount := x\<rparr>) (demo_int v (TotalRecordCount c)))
      else if key_fold k ''totalItemCount''
      then Some (map_decoded (\<lambda>x. c\<lparr>TotalItemCount := x\<rparr>) (demo_int v (TotalItemCount c)))
      else if key_fold k ''fileTotalAmount''
      then Some (map_decoded (\<lambda>x. c\<lparr>FileTotalAmount := x\<rparr>) (demo_int v (FileTotalAmount c)))
      else if key_fold k ''immediateOriginContactName''
      then Some (map_decoded (\<lambda>x. c\<lparr>ImmediateOriginContactName := x\<rparr>)
                   (demo_string v (ImmediateOriginContactName c)))
      else if key_fold k ''immediateOriginContactPhoneNumber''
      then Some (map_decoded (\<lambda>x. c\<lparr>ImmediateOriginContactPhoneNumber := x\<rparr>)
                   (demo_string v (ImmediateOriginContactPhoneNumber c)))
      else if key_fold k ''creditTotalIndicator''
      then Some (map_decoded (\<lambda>x. c\<lparr>CreditTotalIndicator := x\<rparr>)
                   (demo_int v (CreditTotalIndicator c)))
      else None)"

text \<open>
  The example header has no field that a payload sets: an object for it leaves the header
  as it is.
\<close>

definition demo_json :: "(string, jvalue) encoding_json" where
  "demo_json =
     \<lparr>JSON_members = demo_members,
      Key_matches = key_fold,
      Decode_ID = demo_string,
      Decode_Header = demo_object (\<lambda>k v h. None),
      Decode_CashLetters =
        demo_list (demo_object demo_cashLetter_field) (demo_cashLetter [] [] []),
      Decode_Bundles = demo_list (demo_object demo_bundle_field) (demo_bundle [] [] []),
      Decode_Control = demo_object demo_control_field,
      zero_FileHeader = [],
      zero_FileControl = demo_control\<lparr>FileControl_rest := []\<rparr>\<rparr>"

definition demo_deps :: "(string, string) deps" where
  "demo_deps =
     \<lparr>NewFileHeader = ''01'',
      NewFileControl = demo_control,
      FileHeader_Validate =
        (\<lambda>h. if h = [] then Some (External ''FileHeader recordType'') else None),
      CashLetter_Validate =
        (\<lambda>cl. if CashLetter_rest cl = [] then Some (External ''CashLetterHeader recordType'')
              else None),
      Bundle_Validate =
        (\<lambda>b. if Bundle_rest b = [] then Some (External ''BundleHeader recordType'') else None),
      FileHeader_setRecordType = (\<lambda>h. ''01''),
      CashLetter_setRecordType =
        (\<lambda>cl. cl\<lparr>CashLetter.Bundles :=
                    map (\<lambda>b. b\<lparr>Bundle_rest := ''20''\<rparr>) (CashLetter.Bundles cl),
                  CashLetter_rest := ''10''\<rparr>),
      Bundle_setRecordType = (\<lambda>b. b\<lparr>Bundle_rest := ''20''\<rparr>),
      FileControl_setRecordType = (\<lambda>c. c\<lparr>FileControl_rest := ''99''\<rparr>),
      Decode_File = json_Decode_File demo_json,
      Decode_fileHeader = json_Decode_fileHeader demo_json,
      Decode_fileControl = json_Decode_fileControl demo_json\<rparr>"

subsection \<open>Example payloads and Files\<close>

definition quoted :: "string \<Rightarrow> string" where
  "quoted s = CHR 0x22 # s @ [CHR 0x22]"





text \<open>Two CashLetters of two Bundles of one plain CheckDetail each.\<close>

definition demo_file_uniform :: "string File" where
  "demo_file_uniform =
     demo_file
       [demo_cashLetter ''10'' ''CL1''
          [demo_bundle ''20'' [demo_check 1000] [], demo_bundle ''20'' [demo_check 250] []],
        demo_cashLetter ''10'' ''CL2''
          [demo_bundle ''20'' [demo_check 5] [], demo_bundle ''20'' [demo_check 7] []]]"

text \<open>Checks and returns at several places of the tree, and the control record they give.\<close>

definition demo_file_amounts :: "string File" where
  "demo_file_amounts =
     demo_file
       [demo_cashLetter ''10'' ''CL1''
          [demo_bundle ''20'' [demo_check 1000, demo_check 250] [demo_return 50]],
        demo_cashLetter ''10'' ''CL2'' [demo_bundle ''20'' [] [demo_return 7]]]"

definition demo_amounts_control :: "string FileControl" where
  "demo_amounts_control =
     demo_control\<lparr>CashLetterCount := 2, TotalRecordCount := 14, TotalItemCount := 4,
       FileTotalAmount := 1307\<rparr>"

text \<open>The last Bundle of the second CashLetter fails its validation.\<close>

definition demo_file_bad_bundle :: "string File" where
  "demo_file_bad_bundle =
     demo_file
       [demo_cashLetter ''10'' ''CL1'' [demo_bundle ''20'' [demo_check 1000] []],
        demo_cashLetter ''10'' ''CL2''
          [demo_bundle ''20'' [demo_check 250] [], demo_bundle [] [demo_check 5] []]]"

section \<open>The loops of Create\<close>

lemmas demo_defs = demo_deps_def demo_file_def demo_cashLetter_def demo_bundle_def
  demo_check_def demo_return_def demo_control_def GetCreditItems_def len_def

lemma checks_loop_eq:
  "checks_loop cds t =
     t\<lparr>fileTotalItemCount := fileTotalItemCount t
          + (\<Sum>cd\<leftarrow>cds. 1 + len (CheckDetailAddendumA cd) + len (CheckDetailAddendumB cd)
               + len (CheckDetailAddendumC cd) + len (CheckDetail.ImageViewDetail cd)
               + len (CheckDetail.ImageViewData cd) + len (CheckDetail.ImageViewAnalysis cd)),
        fileTotalAmount := fileTotalAmount t + (\<Sum>cd\<leftarrow>cds. CheckDetail.ItemAmount cd)\<rparr>"
  by (induction cds arbitrary: t) (simp_all add: Let_def algebra_simps)

lemma returns_loop_eq:
  "returns_loop rds t =
     t\<lparr>fileTotalItemCount := fileTotalItemCount t
          + (\<Sum>rd\<leftarrow>rds. 1 + len (ReturnDetailAddendumA rd) + len (ReturnDetailAddendumB rd)
               + len (ReturnDetailAddendumC rd) + len (ReturnDetailAddendumD rd)
               + len (ReturnDetail.ImageViewDetail rd)
               + len (ReturnDetail.ImageViewData rd) + len (ReturnDetail.ImageViewAnalysis rd)),
        fileTotalAmount := fileTotalAmount t + (\<Sum>rd\<leftarrow>rds. ReturnDetail.ItemAmount rd)\<rparr>"
  by (induction rds arbitrary: t) (simp_all add: Let_def algebra_simps)

lemma plain_checks_items:
  "\<forall>cd\<in>set cds. plain_check cd \<Longrightarrow>
   (\<Sum>cd\<leftarrow>cds. 1 + len (CheckDetailAddendumA cd) + len (CheckDetailAddendumB cd)
               + len (CheckDetailAddendumC cd) + len (CheckDetail.ImageViewDetail cd)
               + len (CheckDetail.ImageViewData cd) + len (CheckDetail.ImageViewAnalysis cd))
   = len cds"
  by (induction cds) (simp_all add: plain_check_def len_def)

text \<open>The counts after the loop over Bundles that all hold \<open>k\<close> plain checks and no return.\<close>

lemma bundles_loop_uniform:
  assumes "bundles_loop d bs t = Inr t'"
    and "\<forall>bn\<in>set bs. length (Checks bn) = k \<and> Returns bn = []
           \<and> (\<forall>cd\<in>set (Checks bn). plain_check cd)"
  shows "fileTotalItemCount t' = fileTotalItemCount t + word_of_nat (length bs * k)
         \<and> bundleRecordCount t' = bundleRecordCount t + word_of_nat (2 * length bs)
         \<and> cashLetterRecordCount t' = cashLetterRecordCount t"
  using assms
proof (induction bs arbitrary: t)
  case Nil
  then show ?case by simp
next
  case (Cons bn bs)
  from Cons.prems(1) have v: "Bundle_Validate d bn = None"
    by (simp split: option.splits)
  let ?t1 = "returns_loop (Returns bn)
               (checks_loop (Checks bn) (t\<lparr>bundleRecordCount := bundleRecordCount t + 2\<rparr>))"
  from Cons.prems(1) v have rest: "bundles_loop d bs ?t1 = Inr t'"
    by (simp add: Let_def)
  from Cons.prems(2) have here: "length (Checks bn) = k" "Returns bn = []"
    "\<forall>cd\<in>set (Checks bn). plain_check cd"
    by simp_all
  have t1: "fileTotalItemCount ?t1 = fileTotalItemCount t + word_of_nat k"
    "bundleRecordCount ?t1 = bundleRecordCount t + 2"
    "cashLetterRecordCount ?t1 = cashLetterRecordCount t"
    using here plain_checks_items [OF here(3)]
    by (simp_all add: checks_loop_eq len_def)
  from Cons.IH [OF rest] Cons.prems(2) t1 show ?case
    by (simp add: algebra_simps)
qed

lemma cashLetters_loop_uniform:
  assumes "cashLetters_loop d cls t = Inr t'"
    and "\<forall>cl\<in>set cls. length (CashLetter.Bundles cl) = b \<and> CreditItems cl = []
           \<and> (\<forall>bn\<in>set (CashLetter.Bundles cl). length (Checks bn) = k \<and> Returns bn = []
                 \<and> (\<forall>cd\<in>set (Checks bn). plain_check cd))"
  shows "fileTotalItemCount t' = fileTotalItemCount t + word_of_nat (length cls * b * k)
         \<and> bundleRecordCount t' = bundleRecordCount t + word_of_nat (2 * length cls * b)
         \<and> cashLetterRecordCount t' = cashLetterRecordCount t + word_of_nat (2 * length cls)"
  using assms
proof (induction cls arbitrary: t)
  case Nil
  then show ?case by simp
next
  case (Cons cl cls)
  from Cons.prems(1) have v: "CashLetter_Validate d cl = None"
    by (simp split: option.splits)
  from Cons.prems(2) have here: "length (CashLetter.Bundles cl) = b" "GetCreditItems cl = []"
    "\<forall>bn\<in>set (CashLetter.Bundles cl). length (Checks bn) = k \<and> Returns bn = []
         \<and> (\<forall>cd\<in>set (Checks bn). plain_check cd)"
    by (simp_all add: GetCreditItems_def)
  let ?t0 = "t\<lparr>cashLetterRecordCount := cashLetterRecordCount t + 2\<rparr>"
  from Cons.prems(1) v here(2) obtain t1 where
    b1: "bundles_loop d (CashLetter.Bundles cl) ?t0 = Inr t1"
    and rest: "cashLetters_loop d cls t1 = Inr t'"
    by (auto simp add: Let_def len_def split: sum.splits)
  from bundles_loop_uniform [OF b1 here(3)] here(1)
  have t1: "fileTotalItemCount t1 = fileTotalItemCount t + word_of_nat (b * k)"
    "bundleRecordCount t1 = bundleRecordCount t + word_of_nat (2 * b)"
    "cashLetterRecordCount t1 = cashLetterRecordCount t + 2"
    by simp_all
  from Cons.IH [OF rest] Cons.prems(2) t1 show ?case
    by (simp add: algebra_simps)
qed

text \<open>The amount after the loops: every check and every return of the Bundles is added.\<close>

lemma bundles_loop_amount:
  "bundles_loop d bs t = Inr t' \<Longrightarrow>
   fileTotalAmount t' = fileTotalAmount t
     + (\<Sum>cd\<leftarrow>concat (map Checks bs). CheckDetail.ItemAmount cd)
     + (\<Sum>rd\<leftarrow>concat (map Returns bs). ReturnDetail.ItemAmount rd)"
proof (induction bs arbitrary: t)
  case Nil
  then show ?case by simp
next
  case (Cons b bs)
  then show ?case
    by (simp add: Let_def checks_loop_eq returns_loop_eq split: option.splits)
qed

lemma cashLetters_loop_amount:
  "cashLetters_loop d cls t = Inr t' \<Longrightarrow>
   fileTotalAmount t' = fileTotalAmount t
     + (\<Sum>cd\<leftarrow>concat (map Checks (concat (map CashLetter.Bundles cls))).
          CheckDetail.ItemAmount cd)
     + (\<Sum>rd\<leftarrow>concat (map Returns (concat (map CashLetter.Bundles cls))).
          ReturnDetail.ItemAmount rd)"
proof (induction cls arbitrary: t)
  case Nil
  then show ?case by simp
next
  case (Cons cl cls)
  then show ?case
    by (auto simp add: Let_def dest!: bundles_loop_amount
          split: option.splits sum.splits if_splits)
qed

text \<open>The first failing validation ends the loops with its error.\<close>

lemma bundles_loop_first_error:
  assumes "bs = bpre @ b # bpost"
    and "\<forall>x\<in>set bpre. Bundle_Validate d x = None"
    and "Bundle_Validate d b = Some e"
  shows "bundles_loop d bs t = Inl e"
  using assms by (induction bpre arbitrary: bs t) (simp_all add: Let_def)

lemma bundles_loop_valid:
  "\<forall>x\<in>set bs. Bundle_Validate d x = None \<Longrightarrow> bundles_loop d bs t \<noteq> Inl e"
  by (induction bs arbitrary: t) (simp_all add: Let_def)

lemma cashLetters_loop_first_error:
  assumes "cls = pre @ cl # post"
    and "\<forall>x\<in>set pre. CashLetter_Validate d x = None
           \<and> (\<forall>b\<in>set (CashLetter.Bundles x). Bundle_Validate d b = None)"
    and "CashLetter_Validate d cl = Some e
         \<or> (CashLetter_Validate d cl = None
             \<and> (\<exists>bpre b bpost. CashLetter.Bundles cl = bpre @ b # bpost
                   \<and> (\<forall>x\<in>set bpre. Bundle_Validate d x = None)
                   \<and> Bundle_Validate d b = Some e))"
  shows "cashLetters_loop d cls t = Inl e"
  using assms
proof (induction pre arbitrary: cls t)
  case Nil
  then show ?case
    by (auto simp add: Let_def bundles_loop_first_error)
next
  case (Cons x pre)
  from Cons.prems(2) have vx: "CashLetter_Validate d x = None"
    and bx: "\<forall>b\<in>set (CashLetter.Bundles x). Bundle_Validate d b = None"
    by simp_all
  from Cons.prems(2) have pre: "\<forall>x\<in>set pre. CashLetter_Validate d x = None
           \<and> (\<forall>b\<in>set (CashLetter.Bundles x). Bundle_Validate d b = None)"
    by simp
  have step: "\<And>t. cashLetters_loop d (pre @ cl # post) t = Inl e"
    by (rule Cons.IH [OF refl pre Cons.prems(3)])
  show ?case
    unfolding Cons.prems(1)
    using vx bundles_loop_valid [OF bx] step
    by (simp add: Let_def split: sum.split)
qed

section \<open>Create as a whole\<close>

text \<open>What a successful \<open>Create\<close> has checked and what it has stored.\<close>

lemma Create_NoneE:
  assumes "Create d (Some f) = (None, Some f')"
  obtains t where "FileHeader_Validate d (Header f) = None"
    and "CashLetters f \<noteq> []"
    and "cashLetters_loop d (CashLetters f)
           \<lparr>fileTotalItemCount = 0, fileTotalAmount = 0, cashLetterRecordCount = 0,
            bundleRecordCount = 0, creditIndicator = 0\<rparr> = Inr t"
    and "f' = f\<lparr>Control := (NewFileControl d)
           \<lparr>CashLetterCount := len (CashLetters f),
            TotalRecordCount := 2 + cashLetterRecordCount t + bundleRecordCount t
                                  + fileTotalItemCount t,
            TotalItemCount := fileTotalItemCount t,
            FileTotalAmount := fileTotalAmount t,
            ImmediateOriginContactName := [],
            ImmediateOriginContactPhoneNumber := [],
            CreditTotalIndicator := creditIndicator t\<rparr>\<rparr>"
  using assms
  by (auto simp add: Create_def Let_def split: option.splits if_splits sum.splits)

text \<open>\<open>Create\<close> reads the header and the CashLetters of its receiver, nothing else.\<close>

lemma Create_cong:
  assumes "Create d (Some f) = (None, Some f')"
    and "Header g = Header f" and "CashLetters g = CashLetters f"
  shows "Create d (Some g) = (None, Some (g\<lparr>Control := Control f'\<rparr>))"
  using assms
  by (auto simp add: Create_def Let_def split: option.splits if_splits sum.splits)

lemma Create_error_cong:
  assumes "Create d (Some f) = (Some e, fo)"
    and "Header g = Header f" and "CashLetters g = CashLetters f"
  shows "Create d (Some g) = (Some e, Some g)"
  using assms
  by (auto simp add: Create_def Let_def split: option.splits if_splits sum.splits)

lemma Create_Some_receiver:
  "Create d (Some f) = (r, fo) \<Longrightarrow> \<exists>f'. fo = Some f'"
  by (auto simp add: Create_def Let_def split: option.splits if_splits sum.splits)


lemma demo_Create_amounts:
  "Create demo_deps (Some demo_file_amounts) =
     (None, Some (demo_file_amounts\<lparr>Control := demo_amounts_control\<rparr>))"
  by (simp add: Create_def demo_file_amounts_def demo_amounts_control_def demo_defs Let_def)

section \<open>Signed reading of 64-bit words\<close>

lemma sint_word_of_nat_64:
  "n < 2 ^ 63 \<Longrightarrow> sint (word_of_nat n :: go_int) = int n"
proof -
  assume n: "n < 2 ^ 63"
  have "sint (word_of_nat n :: go_int) = sint (word_of_int (int n) :: go_int)"
    by simp
  also have "\<dots> = signed_take_bit 63 (int n)"
    by (simp only: sint_sbintrunc') simp
  also have "\<dots> = int n"
    using n by (intro signed_take_bit_int_eq_self) simp_all
  finally show ?thesis .
qed

lemma sint_word_of_int_64:
  "- (2 ^ 63) \<le> S \<Longrightarrow> S < 2 ^ 63 \<Longrightarrow> sint (word_of_int S :: go_int) = S"
  by (simp add: sint_sbintrunc' signed_take_bit_int_eq_self)

lemma word_sum_list_sint:
  "(\<Sum>x\<leftarrow>xs. g x) = (word_of_int (\<Sum>x\<leftarrow>xs. sint (g x)) :: go_int)"
  by (induction xs) simp_all

section \<open>Results on Create\<close>

text \<open>
  C1. Take a File with \<open>c\<close> CashLetters, each with \<open>b\<close> Bundles and no credit item, each
  Bundle with \<open>k\<close> CheckDetails without addenda or image-view records and with no
  ReturnDetail. When \<open>Create\<close> succeeds on it, the TotalRecordCount of the control record
  is \<open>2 + 2c + 2cb + cbk\<close>: as a Go \<open>int\<close>, and as the number itself as long as it is
  below \<open>2^63\<close>.
\<close>

theorem Create_TotalRecordCount_uniform:
  assumes "Create d (Some f) = (None, Some f')"
    and "length (CashLetters f) = c"
    and "\<forall>cl\<in>set (CashLetters f). length (CashLetter.Bundles cl) = b \<and> CreditItems cl = []
           \<and> (\<forall>bn\<in>set (CashLetter.Bundles cl). length (Checks bn) = k \<and> Returns bn = []
                 \<and> (\<forall>cd\<in>set (Checks bn). plain_check cd))"
  shows "TotalRecordCount (Control f') = word_of_nat (2 + 2 * c + 2 * c * b + c * b * k)
         \<and> (2 + 2 * c + 2 * c * b + c * b * k < 2 ^ 63 \<longrightarrow>
              sint (TotalRecordCount (Control f')) = int (2 + 2 * c + 2 * c * b + c * b * k))"
proof -
  from assms(1) obtain t where
    loop: "cashLetters_loop d (CashLetters f)
           \<lparr>fileTotalItemCount = 0, fileTotalAmount = 0, cashLetterRecordCount = 0,
            bundleRecordCount = 0, creditIndicator = 0\<rparr> = Inr t"
    and f': "TotalRecordCount (Control f') =
               2 + cashLetterRecordCount t + bundleRecordCount t + fileTotalItemCount t"
    by (rule Create_NoneE) simp
  from cashLetters_loop_uniform [OF loop assms(3)] assms(2)
  have "fileTotalItemCount t = word_of_nat (c * b * k)"
    "bundleRecordCount t = word_of_nat (2 * c * b)"
    "cashLetterRecordCount t = word_of_nat (2 * c)"
    by simp_all
  with f' have eq:
    "TotalRecordCount (Control f') = word_of_nat (2 + 2 * c + 2 * c * b + c * b * k)"
    by simp
  show ?thesis
  proof (intro conjI impI)
    show "TotalRecordCount (Control f') = word_of_nat (2 + 2 * c + 2 * c * b + c * b * k)"
      by (rule eq)
  next
    assume "2 + 2 * c + 2 * c * b + c * b * k < 2 ^ 63"
    then show "sint (TotalRecordCount (Control f')) = int (2 + 2 * c + 2 * c * b + c * b * k)"
      unfolding eq by (rule sint_word_of_nat_64)
  qed
qed

theorem Create_TotalRecordCount_uniform_witness:
  "Create demo_deps (Some demo_file_uniform) =
     (None, Some (demo_file_uniform\<lparr>Control := demo_control
        \<lparr>CashLetterCount := 2, TotalRecordCount := 18, TotalItemCount := 4,
         FileTotalAmount := 1262\<rparr>\<rparr>))
   \<and> (18 :: go_int) = word_of_nat (2 + 2 * 2 + 2 * 2 * 2 + 2 * 2 * 1)
   \<and> sint (18 :: go_int) = int (2 + 2 * 2 + 2 * 2 * 2 + 2 * 2 * 1)"
proof -
  let ?f' = "demo_file_uniform\<lparr>Control := demo_control
        \<lparr>CashLetterCount := 2, TotalRecordCount := 18, TotalItemCount := 4,
         FileTotalAmount := 1262\<rparr>\<rparr>"
  have c: "Create demo_deps (Some demo_file_uniform) = (None, Some ?f')"
    by (simp add: Create_def demo_file_uniform_def demo_defs Let_def)
  have l: "length (CashLetters demo_file_uniform) = 2"
    by (simp add: demo_file_uniform_def demo_defs)
  have u: "\<forall>cl\<in>set (CashLetters demo_file_uniform).
             length (CashLetter.Bundles cl) = 2 \<and> CreditItems cl = []
             \<and> (\<forall>bn\<in>set (CashLetter.Bundles cl). length (Checks bn) = 1 \<and> Returns bn = []
                   \<and> (\<forall>cd\<in>set (Checks bn). plain_check cd))"
    by (simp add: demo_file_uniform_def demo_defs plain_check_def)
  from Create_TotalRecordCount_uniform [OF c l u] c show ?thesis
    by simp
qed

text \<open>
  C2. When \<open>Create\<close> succeeds, the FileTotalAmount of the control record is the sum of the
  ItemAmount of every CheckDetail and every ReturnDetail in every Bundle of every
  CashLetter. The sum is the one of Go's \<open>int\<close>, which wraps around; whenever the sum of
  the amounts as numbers fits into 64 bits, FileTotalAmount is that number.
\<close>

theorem Create_FileTotalAmount:
  assumes "Create d (Some f) = (None, Some f')"
  shows "FileTotalAmount (Control f') =
           (\<Sum>cd\<leftarrow>all_checks f. CheckDetail.ItemAmount cd)
           + (\<Sum>rd\<leftarrow>all_returns f. ReturnDetail.ItemAmount rd)
         \<and> (let S = (\<Sum>cd\<leftarrow>all_checks f. sint (CheckDetail.ItemAmount cd))
                      + (\<Sum>rd\<leftarrow>all_returns f. sint (ReturnDetail.ItemAmount rd))
            in - (2 ^ 63) \<le> S \<and> S < 2 ^ 63 \<longrightarrow> sint (FileTotalAmount (Control f')) = S)"
proof -
  from assms obtain t where
    loop: "cashLetters_loop d (CashLetters f)
           \<lparr>fileTotalItemCount = 0, fileTotalAmount = 0, cashLetterRecordCount = 0,
            bundleRecordCount = 0, creditIndicator = 0\<rparr> = Inr t"
    and f': "FileTotalAmount (Control f') = fileTotalAmount t"
    by (rule Create_NoneE) simp
  from cashLetters_loop_amount [OF loop] f'
  have eq: "FileTotalAmount (Control f') =
           (\<Sum>cd\<leftarrow>all_checks f. CheckDetail.ItemAmount cd)
           + (\<Sum>rd\<leftarrow>all_returns f. ReturnDetail.ItemAmount rd)"
    by (simp add: all_checks_def all_returns_def all_bundles_def)
  define S where "S = (\<Sum>cd\<leftarrow>all_checks f. sint (CheckDetail.ItemAmount cd))
                      + (\<Sum>rd\<leftarrow>all_returns f. sint (ReturnDetail.ItemAmount rd))"
  have "FileTotalAmount (Control f') = word_of_int S"
    unfolding eq S_def
    by (simp add: word_sum_list_sint [of CheckDetail.ItemAmount]
          word_sum_list_sint [of ReturnDetail.ItemAmount])
  then have "- (2 ^ 63) \<le> S \<and> S < 2 ^ 63 \<longrightarrow> sint (FileTotalAmount (Control f')) = S"
    by (simp add: sint_word_of_int_64)
  with eq show ?thesis
    by (simp add: S_def Let_def)
qed

theorem Create_FileTotalAmount_witness:
  "Create demo_deps (Some demo_file_amounts) =
     (None, Some (demo_file_amounts\<lparr>Control := demo_amounts_control\<rparr>))
   \<and> FileTotalAmount demo_amounts_control = 1000 + 250 + 7 + 50
   \<and> sint (FileTotalAmount demo_amounts_control) = 1307"
proof -
  have ac: "all_checks demo_file_amounts = [demo_check 1000, demo_check 250]"
    and ar: "all_returns demo_file_amounts = [demo_return 50, demo_return 7]"
    by (simp_all add: all_checks_def all_returns_def all_bundles_def demo_file_amounts_def
          demo_file_def demo_cashLetter_def demo_bundle_def)
  from Create_FileTotalAmount [OF demo_Create_amounts]
  show ?thesis
    by (simp add: demo_Create_amounts ac ar demo_check_def demo_return_def
          demo_amounts_control_def demo_control_def)
qed

text \<open>
  C3, as the code has it. On a File whose header validates and whose CashLetters are empty,
  \<open>Create\<close> fails with the FileError of field \<open>CashLetters\<close>, value \<open>0\<close> and message
  \<open>must have []*CashLetters to be built\<close>, and the File, its control record included, is
  as before.
\<close>

theorem Create_no_CashLetters:
  assumes "FileHeader_Validate d (Header f) = None"
    and "CashLetters f = []"
  shows "Create d (Some f) =
           (Some (FileError ''CashLetters'' ''0'' ''must have []*CashLetters to be built''),
            Some f)"
  using assms by (simp add: Create_def Itoa_def len_def decimal.simps)

theorem Create_no_CashLetters_witness:
  "Create demo_deps (Some (demo_file [])) =
     (Some (FileError ''CashLetters'' ''0'' ''must have []*CashLetters to be built''),
      Some (demo_file []))"
proof -
  have h: "FileHeader_Validate demo_deps (Header (demo_file [])) = None"
    by (simp add: demo_defs)
  have e: "CashLetters (demo_file []) = []"
    by (simp add: demo_defs)
  from Create_no_CashLetters [OF h e] show ?thesis .
qed

text \<open>
  The message of C3 as the claim words it, \<open>must have CashLetters to be built\<close>, is not
  the one that \<open>Create\<close> returns.
\<close>

theorem Create_no_CashLetters_Msg_counterexample:
  "FileHeader_Validate demo_deps (Header (demo_file [])) = None
   \<and> CashLetters (demo_file []) = []
   \<and> fst (Create demo_deps (Some (demo_file []))) \<noteq>
       Some (FileError ''CashLetters'' ''0'' ''must have CashLetters to be built'')
   \<and> Msg (the (fst (Create demo_deps (Some (demo_file []))))) =
       ''must have []*CashLetters to be built''"
  by (simp add: Create_def Itoa_def decimal.simps demo_defs)

text \<open>
  C5. When the header validates and the validation of a CashLetter or of a Bundle fails
  during \<open>Create\<close> (all the CashLetters and Bundles that the loops visit before it having
  passed), \<open>Create\<close> returns the error value of that validation as it is, and the File,
  its control record included, is as before.
\<close>

theorem Create_child_error:
  assumes "FileHeader_Validate d (Header f) = None"
    and "CashLetters f = pre @ cl # post"
    and "\<forall>x\<in>set pre. CashLetter_Validate d x = None
           \<and> (\<forall>b\<in>set (CashLetter.Bundles x). Bundle_Validate d b = None)"
    and "CashLetter_Validate d cl = Some e
         \<or> (CashLetter_Validate d cl = None
             \<and> (\<exists>bpre b bpost. CashLetter.Bundles cl = bpre @ b # bpost
                   \<and> (\<forall>x\<in>set bpre. Bundle_Validate d x = None)
                   \<and> Bundle_Validate d b = Some e))"
  shows "Create d (Some f) = (Some e, Some f)"
  using assms(1,2) cashLetters_loop_first_error [OF assms(2,3,4)]
  by (simp add: Create_def Let_def)

theorem Create_child_error_witness:
  "Create demo_deps (Some demo_file_bad_bundle) =
     (Some (External ''BundleHeader recordType''), Some demo_file_bad_bundle)"
proof -
  let ?cl1 = "demo_cashLetter ''10'' ''CL1'' [demo_bundle ''20'' [demo_check 1000] []]"
  let ?cl2 = "demo_cashLetter ''10'' ''CL2''
          [demo_bundle ''20'' [demo_check 250] [], demo_bundle [] [demo_check 5] []]"
  have h: "FileHeader_Validate demo_deps (Header demo_file_bad_bundle) = None"
    by (simp add: demo_file_bad_bundle_def demo_defs)
  have s: "CashLetters demo_file_bad_bundle = [?cl1] @ ?cl2 # []"
    by (simp add: demo_file_bad_bundle_def demo_file_def)
  have p: "\<forall>x\<in>set [?cl1]. CashLetter_Validate demo_deps x = None
             \<and> (\<forall>b\<in>set (CashLetter.Bundles x). Bundle_Validate demo_deps b = None)"
    by (simp add: demo_defs)
  have v: "CashLetter_Validate demo_deps ?cl2 = None"
    by (simp add: demo_defs)
  have "CashLetter.Bundles ?cl2 =
          [demo_bundle ''20'' [demo_check 250] []] @ demo_bundle [] [demo_check 5] [] # []
        \<and> (\<forall>x\<in>set [demo_bundle ''20'' [demo_check 250] []]. Bundle_Validate demo_deps x = None)
        \<and> Bundle_Validate demo_deps (demo_bundle [] [demo_check 5] []) =
            Some (External ''BundleHeader recordType'')"
    by (simp add: demo_defs)
  with v have b: "CashLetter_Validate demo_deps ?cl2 = Some (External ''BundleHeader recordType'')
         \<or> (CashLetter_Validate demo_deps ?cl2 = None
             \<and> (\<exists>bpre b bpost. CashLetter.Bundles ?cl2 = bpre @ b # bpost
                   \<and> (\<forall>x\<in>set bpre. Bundle_Validate demo_deps x = None)
                   \<and> Bundle_Validate demo_deps b = Some (External ''BundleHeader recordType'')))"
    by blast
  from Create_child_error [OF h s p b] show ?thesis .
qed

text \<open>
  C6. When \<open>Create\<close> succeeds on a File, a second \<open>Create\<close> on the result succeeds and
  leaves it as it is, and \<open>Create\<close> succeeds with an equal control record on every File
  that has the same header and the same CashLetters.
\<close>

theorem Create_idempotent:
  fixes f :: "'r File"
  assumes "Create d (Some f) = (None, Some f')"
  shows "Create d (Some f') = (None, Some f')
         \<and> (\<forall>g. Header g = Header f \<and> CashLetters g = CashLetters f \<longrightarrow>
               (\<exists>g'. Create d (Some g) = (None, Some g') \<and> Control g' = Control f'))"
proof (intro conjI allI impI)
  from assms have h: "Header f' = Header f"
    by (rule Create_NoneE) simp
  from assms have c: "CashLetters f' = CashLetters f"
    by (rule Create_NoneE) simp
  from Create_cong [OF assms h c] show "Create d (Some f') = (None, Some f')"
    by simp
next
  fix g :: "'r File"
  assume "Header g = Header f \<and> CashLetters g = CashLetters f"
  then have "Create d (Some g) = (None, Some (g\<lparr>Control := Control f'\<rparr>))"
    using Create_cong [OF assms] by simp
  then show "\<exists>g'. Create d (Some g) = (None, Some g') \<and> Control g' = Control f'"
    by simp
qed

theorem Create_idempotent_witness:
  "Create demo_deps (Some demo_file_amounts) =
     (None, Some (demo_file_amounts\<lparr>Control := demo_amounts_control\<rparr>))
   \<and> Create demo_deps (Some (demo_file_amounts\<lparr>Control := demo_amounts_control\<rparr>)) =
     (None, Some (demo_file_amounts\<lparr>Control := demo_amounts_control\<rparr>))
   \<and> Control (the (snd (Create demo_deps (Some (demo_file_amounts\<lparr>ID := ''f2''\<rparr>))))) =
       demo_amounts_control"
proof -
  let ?g = "demo_file_amounts\<lparr>ID := ''f2''\<rparr>"
  from Create_idempotent [OF demo_Create_amounts]
  have 1: "Create demo_deps (Some (demo_file_amounts\<lparr>Control := demo_amounts_control\<rparr>)) =
     (None, Some (demo_file_amounts\<lparr>Control := demo_amounts_control\<rparr>))"
    and 2: "Header ?g = Header demo_file_amounts \<and> CashLetters ?g = CashLetters demo_file_amounts
      \<longrightarrow> (\<exists>g'. Create demo_deps (Some ?g) = (None, Some g')
                \<and> Control g' = Control (demo_file_amounts\<lparr>Control := demo_amounts_control\<rparr>))"
    by blast+
  from 2 have "Control (the (snd (Create demo_deps (Some ?g)))) = demo_amounts_control"
    by auto
  with 1 demo_Create_amounts show ?thesis by simp
qed

text \<open>
  C10. A successful \<open>Create\<close> changes the field Control of the File and nothing else: ID,
  Header, CashLetters and Bundles, with all that they contain, are as before.
\<close>

theorem Create_frame:
  assumes "Create d (Some f) = (None, Some f')"
  shows "ID f' = ID f \<and> Header f' = Header f \<and> CashLetters f' = CashLetters f
         \<and> Bundles f' = Bundles f \<and> f' = f\<lparr>Control := Control f'\<rparr>"
  using assms by (rule Create_NoneE) simp

theorem Create_frame_witness:
  "Create demo_deps (Some demo_file_amounts) =
     (None, Some (demo_file_amounts\<lparr>Control := demo_amounts_control\<rparr>))
   \<and> ID (demo_file_amounts\<lparr>Control := demo_amounts_control\<rparr>) = ID demo_file_amounts
   \<and> Header (demo_file_amounts\<lparr>Control := demo_amounts_control\<rparr>) = Header demo_file_amounts
   \<and> CashLetters (demo_file_amounts\<lparr>Control := demo_amounts_control\<rparr>)
       = CashLetters demo_file_amounts
   \<and> Bundles (demo_file_amounts\<lparr>Control := demo_amounts_control\<rparr>) = Bundles demo_file_amounts"
  using Create_frame [OF demo_Create_amounts] demo_Create_amounts by simp

section \<open>Results on Validate\<close>

text \<open>
  C4. \<open>Validate\<close> finds a repeated CashLetterID only when the two CashLetters are
  neighbours: for distinct non-empty \<open>A\<close> and \<open>B\<close>, a File with the IDs \<open>[A, A, B]\<close> fails
  with the FileError of field \<open>CashLetterID\<close>, value \<open>A\<close> and message \<open>A is not unique\<close>,
  and a File with the IDs \<open>[A, B, A]\<close> passes.
\<close>

theorem Validate_adjacent_only:
  assumes "A \<noteq> []" and "B \<noteq> []" and "A \<noteq> B"
  shows "(map (\<lambda>cl. CashLetterID (CashLetterHeader cl)) (CashLetters f) = [A, A, B] \<longrightarrow>
            Validate (Some f) = Some (FileError ''CashLetterID'' A (A @ '' is not unique'')))
         \<and> (map (\<lambda>cl. CashLetterID (CashLetterHeader cl)) (CashLetters g) = [A, B, A] \<longrightarrow>
              Validate (Some g) = None)"
  using assms
  by (auto simp add: Validate_def CashLetterIDUnique_def msgFileCashLetterID_def
        map_eq_Cons_conv)

theorem Validate_adjacent_only_witness:
  "(Validate (Some (demo_file_ids [''A'', ''A'', ''B''])) :: string error option) =
     Some (FileError ''CashLetterID'' ''A'' ''A is not unique'')
   \<and> (Validate (Some (demo_file_ids [''A'', ''B'', ''A''])) :: string error option) = None"
proof -
  have a: "''A'' \<noteq> []" and b: "''B'' \<noteq> []" and ab: "''A'' \<noteq> ''B''"
    by simp_all
  have i1: "map (\<lambda>cl. CashLetterID (CashLetterHeader cl))
              (CashLetters (demo_file_ids [''A'', ''A'', ''B''])) = [''A'', ''A'', ''B'']"
    and i2: "map (\<lambda>cl. CashLetterID (CashLetterHeader cl))
              (CashLetters (demo_file_ids [''A'', ''B'', ''A''])) = [''A'', ''B'', ''A'']"
    by (simp_all add: demo_file_ids_def demo_file_def demo_cashLetter_def)
  from Validate_adjacent_only [OF a b ab,
      of "demo_file_ids [''A'', ''A'', ''B'']" "demo_file_ids [''A'', ''B'', ''A'']"] i1 i2
  show ?thesis by simp
qed

text \<open>
  C9. A File whose first CashLetter has the empty string as CashLetterID fails \<open>Validate\<close>
  with the FileError of field \<open>CashLetterID\<close>, whatever the other CashLetters are: the
  rolling variable of the loop starts as the empty string.
\<close>

theorem Validate_first_id_empty:
  assumes "CashLetters f = cl # cls"
    and "CashLetterID (CashLetterHeader cl) = []"
  shows "Validate (Some f) = Some (FileError ''CashLetterID'' [] '' is not unique'')"
  using assms by (simp add: Validate_def CashLetterIDUnique_def msgFileCashLetterID_def)

theorem Validate_first_id_empty_witness:
  "(Validate (Some (demo_file_ids ['''', ''CL2''])) :: string error option) =
     Some (FileError ''CashLetterID'' [] '' is not unique'')"
proof -
  have 1: "CashLetters (demo_file_ids ['''', ''CL2'']) =
             demo_cashLetter ''10'' [] [] # [demo_cashLetter ''10'' ''CL2'' []]"
    by (simp add: demo_file_ids_def demo_file_def)
  have 2: "CashLetterID (CashLetterHeader (demo_cashLetter ''10'' [] [])) = []"
    by (simp add: demo_cashLetter_def)
  from Validate_first_id_empty [OF 1 2] show ?thesis .
qed

section \<open>The decode passes\<close>




text \<open>The example decoder on the example payloads.\<close>

lemmas parse_defs = parse_json_def parse_number_def digit_of_def is_ws_def quote_def
  backslash_def quoted_def









section \<open>Results on FileFromJSON\<close>

text \<open>
  C7. On the empty payload \<open>FileFromJSON\<close> returns no File and the error
  \<open>no JSON data provided\<close>. Every other call that returns no File has failed in one of
  the three decode passes, and its error, which names the pass, is a different one.
\<close>

theorem FileFromJSON_empty:
  "FileFromJSON d [] = (None, Some (errorString ''no JSON data provided''))
   \<and> (\<forall>bs. bs \<noteq> [] \<and> fst (FileFromJSON d bs) = None \<longrightarrow>
         (\<exists>err. snd (FileFromJSON d bs) = Some (errorString (''problem reading file: '' @ err))
              \<or> snd (FileFromJSON d bs)
                  = Some (errorString (''problem reading FileHeader: '' @ err))
              \<or> snd (FileFromJSON d bs)
                  = Some (errorString (''problem reading FileControl: '' @ err)))
         \<and> snd (FileFromJSON d bs) \<noteq> Some (errorString ''no JSON data provided''))"
proof (intro conjI allI impI)
  show "FileFromJSON d [] = (None, Some (errorString ''no JSON data provided''))"
    by (simp add: FileFromJSON_def)
next
  fix bs :: string
  assume a: "bs \<noteq> [] \<and> fst (FileFromJSON d bs) = None"
  have recv: "\<And>f r fo. Create d (setRecordTypes d (Some f)) = (r, fo) \<Longrightarrow> fo \<noteq> None"
    by (auto simp add: setRecordTypes_def Let_def dest: Create_Some_receiver)
  from a show ex:
    "\<exists>err. snd (FileFromJSON d bs) = Some (errorString (''problem reading file: '' @ err))
          \<or> snd (FileFromJSON d bs) = Some (errorString (''problem reading FileHeader: '' @ err))
          \<or> snd (FileFromJSON d bs) = Some (errorString (''problem reading FileControl: '' @ err))"
    by (auto simp add: FileFromJSON_def Let_def split: sum.splits prod.splits option.splits
          dest: recv)
  then show "snd (FileFromJSON d bs) \<noteq> Some (errorString ''no JSON data provided'')"
    by auto
qed

theorem FileFromJSON_empty_witness:
  "FileFromJSON demo_deps [] = (None, Some (errorString ''no JSON data provided''))
   \<and> FileFromJSON demo_deps ''{''
       = (None, Some (errorString ''problem reading file: unexpected EOF''))
   \<and> snd (FileFromJSON demo_deps ''{'') \<noteq> Some (errorString ''no JSON data provided'')"
proof -
  have f: "FileFromJSON demo_deps ''{''
       = (None, Some (errorString ''problem reading file: unexpected EOF''))"
    by (simp add: FileFromJSON_def demo_deps_def json_Decode_File_def demo_json_def
          demo_members_def parse_defs Let_def)
  then have h: "''{'' \<noteq> [] \<and> fst (FileFromJSON demo_deps ''{'') = None"
    by simp
  from FileFromJSON_empty [of demo_deps] h
  have "FileFromJSON demo_deps [] = (None, Some (errorString ''no JSON data provided''))"
    and "snd (FileFromJSON demo_deps ''{'') \<noteq> Some (errorString ''no JSON data provided'')"
    by blast+
  with f show ?thesis by simp
qed






end
